theory Spec2Isabelle
  imports Main "HOL-Library.Word"
begin

section \<open>The distributed mutex of ddb/sync, embedded\<close>

text \<open>
  The Go package \<^verbatim>\<open>sync\<close> (DynamoDB implementation) keeps a named lock in a DynamoDB
  item and a string value next to it. Go's \<^verbatim>\<open>int64\<close> and \<^verbatim>\<open>time.Duration\<close> are 64-bit
  words read with \<open>sint\<close>; a panic is a value of type \<open>panic\<close>; the loops that may run
  for ever consume a list supplied by the environment and return \<open>None\<close> when it runs out.
\<close>

type_synonym int64 = "64 word"

subsection \<open>The part of strconv the package calls\<close>

text \<open>
  \<^verbatim>\<open>strconv.ParseInt(s, 10, 64)\<close> and \<^verbatim>\<open>strconv.FormatInt(v, 10)\<close> belong to Go's standard
  library. They are written here after the library's own code for base 10 and 64 bits:
  an optional sign, then \<^verbatim>\<open>ParseUint\<close>'s digit loop with its two overflow checks.
\<close>

datatype NumError = ErrSyntax | ErrRange

definition maxUint64 :: nat where
  "maxUint64 = 2 ^ 64 - 1"

definition is_digit :: "char \<Rightarrow> bool" where
  "is_digit c = (48 \<le> (of_char c :: nat) \<and> (of_char c :: nat) \<le> 57)"

definition digit_nat :: "char \<Rightarrow> nat" where
  "digit_nat c = of_char c - 48"

definition digit_char :: "nat \<Rightarrow> char" where
  "digit_char d = char_of (48 + d)"

text \<open>The loop of \<^verbatim>\<open>ParseUint\<close>: \<open>n\<close> is the value read so far.\<close>

fun parseUint_loop :: "nat \<Rightarrow> string \<Rightarrow> NumError + nat" where
  "parseUint_loop n [] = Inr n"
| "parseUint_loop n (c # cs) =
     (if \<not> is_digit c then Inl ErrSyntax
      else if n \<ge> maxUint64 div 10 + 1 then Inl ErrRange
      else let n1 = n * 10 + digit_nat c
           in if n1 > maxUint64 then Inl ErrRange else parseUint_loop n1 cs)"

definition ParseUint :: "string \<Rightarrow> NumError + nat" where
  "ParseUint s = (if s = [] then Inl ErrSyntax else parseUint_loop 0 s)"

definition ParseInt :: "string \<Rightarrow> NumError + int64" where
  "ParseInt s =
     (if s = [] then Inl ErrSyntax
      else
        let neg = (hd s = CHR ''-'');
            s1 = (if hd s = CHR ''+'' \<or> hd s = CHR ''-'' then tl s else s)
        in case ParseUint s1 of
             Inl ErrSyntax \<Rightarrow> Inl ErrSyntax
           | Inl ErrRange \<Rightarrow> Inl ErrRange
           | Inr un \<Rightarrow>
               if \<not> neg \<and> un \<ge> 2 ^ 63 then Inl ErrRange
               else if neg \<and> un > 2 ^ 63 then Inl ErrRange
               else Inr (if neg then - word_of_nat un else word_of_nat un))"

function decimal :: "nat \<Rightarrow> string" where
  "decimal n = (if n < 10 then [digit_char n] else decimal (n div 10) @ [digit_char (n mod 10)])"
  by pat_completeness auto
termination
  by (relation "measure (\<lambda>n. n)") auto

declare decimal.simps [simp del]

definition FormatInt :: "int64 \<Rightarrow> string" where
  "FormatInt v = (if sint v < 0 then CHR ''-'' # decimal (nat (- sint v)) else decimal (nat (sint v)))"

subsection \<open>What the spec calls a base-10 signed 64-bit integer literal\<close>

text \<open>
  Written from the spec's words, to compare \<open>ParseInt\<close> with: an optional sign, one or
  more decimal digits, and a value between \<open>-2^63\<close> and \<open>2^63 - 1\<close>. The value of a
  digit string is positional.
\<close>

fun decimal_value :: "string \<Rightarrow> nat" where
  "decimal_value [] = 0"
| "decimal_value (c # cs) = digit_nat c * 10 ^ length cs + decimal_value cs"

definition digits_part :: "string \<Rightarrow> string" where
  "digits_part s = (if s \<noteq> [] \<and> (hd s = CHR ''+'' \<or> hd s = CHR ''-'') then tl s else s)"

definition literal_value :: "string \<Rightarrow> int" where
  "literal_value s =
     (if s \<noteq> [] \<and> hd s = CHR ''-'' then - int (decimal_value (digits_part s))
      else int (decimal_value (digits_part s)))"

definition valid_int64_literal :: "string \<Rightarrow> bool" where
  "valid_int64_literal s =
     (digits_part s \<noteq> [] \<and> list_all is_digit (digits_part s) \<and>
      - (2 ^ 63) \<le> literal_value s \<and> literal_value s < 2 ^ 63)"

subsection \<open>The Mutex and its panics\<close>

text \<open>
  \<^verbatim>\<open>error\<close> values: an \<^verbatim>\<open>awserr.Error\<close> with its code, or any other error. The two
  session handles are pointers; only whether they are nil matters here.
\<close>

datatype error = AwsErr string | OtherErr string

datatype panic =
    FailedToAcquire  \<comment> \<open>\<^verbatim>\<open>panic(errors.New("could not lock mutex"))\<close>\<close>
  | NotHolder  \<comment> \<open>\<^verbatim>\<open>panic(errors.New("could not unlock mutex"))\<close>\<close>
  | StoreError error  \<comment> \<open>\<^verbatim>\<open>panic(err)\<close>\<close>
  | InvalidValue NumError  \<comment> \<open>\<^verbatim>\<open>panic(err.Error())\<close> in GetValueInt64\<close>
  | TableNotCreated error  \<comment> \<open>\<^verbatim>\<open>panic(fmt.Sprintf("sync table not created: %v", err))\<close>\<close>
  | CouldNotAccessTable string  \<comment> \<open>\<^verbatim>\<open>panic(fmt.Sprintf("could not access table: %v", ...))\<close>\<close>
  | NilPointerDereference  \<comment> \<open>the run-time panic of \<^verbatim>\<open>*p\<close> with \<^verbatim>\<open>p == nil\<close>\<close>

record Mutex =
  initialized :: bool
  Name :: string
  Value :: string
  Expiry :: int64
  id_m :: int64  \<comment> \<open>the field \<^verbatim>\<open>id\<close>\<close>
  AWSRegion :: string
  AWSSession :: "string option"
  IgnoreEnvVars :: bool
  DDBSession :: "string option"
  DDBTableName :: string
  timeout :: int64
  timeoutSet :: bool

subsection \<open>Value accessors\<close>

definition GetValueInt64 :: "Mutex \<Rightarrow> panic + int64" where
  "GetValueInt64 m =
     (if Value m = [] then Inr 0
      else case ParseInt (Value m) of
             Inl err \<Rightarrow> Inl (InvalidValue err)
           | Inr result \<Rightarrow> Inr result)"

definition SetValueInt64 :: "int64 \<Rightarrow> Mutex \<Rightarrow> Mutex" where
  "SetValueInt64 v m = m\<lparr>Value := FormatInt v\<rparr>"

definition GetValueString :: "Mutex \<Rightarrow> string" where
  "GetValueString m = Value m"

definition SetValueString :: "string \<Rightarrow> Mutex \<Rightarrow> Mutex" where
  "SetValueString v m = m\<lparr>Value := v\<rparr>"

definition WithTimeout :: "int64 \<Rightarrow> Mutex \<Rightarrow> Mutex" where
  "WithTimeout t m = m\<lparr>timeout := t, timeoutSet := True\<rparr>"

definition GetTimeout :: "Mutex \<Rightarrow> int64" where
  "GetTimeout m = timeout m"

text \<open>The zero value \<^verbatim>\<open>Mutex{}\<close>.\<close>

definition Mutex0 :: Mutex where
  "Mutex0 = \<lparr>initialized = False, Name = [], Value = [], Expiry = 0, id_m = 0,
     AWSRegion = [], AWSSession = None, IgnoreEnvVars = False, DDBSession = None,
     DDBTableName = [], timeout = 0, timeoutSet = False\<rparr>"

subsection \<open>The conditional store\<close>

text \<open>
  Modelled from the spec: DynamoDB's \<^verbatim>\<open>UpdateItem\<close> is the spec's Conditional Store, an
  external collaborator whose code is not in the repository. One call checks the condition
  against the item stored under the key and applies the \<^verbatim>\<open>SET\<close> clauses in one atomic
  step, or reports \<^verbatim>\<open>ConditionalCheckFailedException\<close>, or another error. A missing item
  is an item with no attribute; a successful update stores the key attribute with the
  rest. A number attribute travels as its decimal string (\<^verbatim>\<open>strconv.FormatInt\<close>) and is
  kept here as the integer it denotes. A condition string is kept as its parse tree, with
  its \<^verbatim>\<open>#name\<close> and \<^verbatim>\<open>:value\<close> placeholders; the \<^verbatim>\<open>SET\<close> expression as its list of
  assignments.
\<close>

datatype AttributeValue = AttrN int | AttrS string

type_synonym item = "string \<rightharpoonup> AttributeValue"

type_synonym table = "string \<rightharpoonup> item"

datatype comparator = CmpEq | CmpNe | CmpLt

datatype condition =
    attribute_not_exists string
  | Compare string comparator string
  | Or condition condition
  | And condition condition

record UpdateItemInput =
  ConditionExpression :: condition
  ExpressionAttributeNames :: "(string \<times> string) list"
  ExpressionAttributeValues :: "(string \<times> AttributeValue) list"
  Key :: "(string \<times> AttributeValue) list"
  ReturnValues :: "string option"
  UpdateExpression :: "(string \<times> string) list"
  TableName :: string

text \<open>
  The world outside the client: the tables, the requests the store has received, in order,
  and the intervals the client has slept.
\<close>

record world =
  tables :: "string \<rightharpoonup> table"
  requests :: "UpdateItemInput list"
  sleeps :: "int64 list"

definition ErrCodeConditionalCheckFailedException :: string where
  "ErrCodeConditionalCheckFailedException = ''ConditionalCheckFailedException''"

definition ErrCodeResourceInUseException :: string where
  "ErrCodeResourceInUseException = ''ResourceInUseException''"

definition ErrCodeResourceNotFoundException :: string where
  "ErrCodeResourceNotFoundException = ''ResourceNotFoundException''"

definition ErrCodeValidationException :: string where
  "ErrCodeValidationException = ''ValidationException''"

fun compare_attr :: "comparator \<Rightarrow> AttributeValue option \<Rightarrow> AttributeValue \<Rightarrow> bool" where
  "compare_attr CmpEq a v = (a = Some v)"
| "compare_attr CmpNe a v = (a \<noteq> Some v)"
| "compare_attr CmpLt (Some (AttrN x)) (AttrN y) = (x < y)"
| "compare_attr CmpLt _ _ = False"

fun evalCondition ::
  "(string \<rightharpoonup> string) \<Rightarrow> (string \<rightharpoonup> AttributeValue) \<Rightarrow> item \<Rightarrow> condition \<Rightarrow> bool option" where
  "evalCondition names vals it (attribute_not_exists p) =
     (case names p of None \<Rightarrow> None | Some a \<Rightarrow> Some (it a = None))"
| "evalCondition names vals it (Compare p c v) =
     (case names p of
        None \<Rightarrow> None
      | Some a \<Rightarrow> (case vals v of None \<Rightarrow> None | Some x \<Rightarrow> Some (compare_attr c (it a) x)))"
| "evalCondition names vals it (Or l r) =
     (case evalCondition names vals it l of
        None \<Rightarrow> None
      | Some a \<Rightarrow> (case evalCondition names vals it r of None \<Rightarrow> None | Some b \<Rightarrow> Some (a \<or> b)))"
| "evalCondition names vals it (And l r) =
     (case evalCondition names vals it l of
        None \<Rightarrow> None
      | Some a \<Rightarrow> (case evalCondition names vals it r of None \<Rightarrow> None | Some b \<Rightarrow> Some (a \<and> b)))"

fun applySet ::
  "(string \<rightharpoonup> string) \<Rightarrow> (string \<rightharpoonup> AttributeValue) \<Rightarrow> (string \<times> string) list \<Rightarrow> item \<Rightarrow> item option" where
  "applySet names vals [] it = Some it"
| "applySet names vals ((p, v) # rest) it =
     (case names p of
        None \<Rightarrow> None
      | Some a \<Rightarrow> (case vals v of None \<Rightarrow> None | Some x \<Rightarrow> applySet names vals rest (it(a \<mapsto> x))))"

text \<open>The item stored under a key of a table, the empty item when there is none.\<close>

definition stored_item :: "world \<Rightarrow> string \<Rightarrow> string \<Rightarrow> item" where
  "stored_item w tname k =
     (case tables w tname of
        None \<Rightarrow> Map.empty
      | Some tbl \<Rightarrow> (case tbl k of None \<Rightarrow> Map.empty | Some it \<Rightarrow> it))"

text \<open>
  \<open>fault\<close> is a failure of the call itself (transport, throttling, permissions), decided
  by the environment; such a call leaves the tables as they are.
\<close>

definition UpdateItem :: "error option \<Rightarrow> UpdateItemInput \<Rightarrow> world \<Rightarrow> (error + item) \<times> world" where
  "UpdateItem fault input w =
     (let w1 = w\<lparr>requests := requests w @ [input]\<rparr>;
          names = map_of (ExpressionAttributeNames input);
          vals = map_of (ExpressionAttributeValues input)
      in case fault of
           Some e \<Rightarrow> (Inl e, w1)
         | None \<Rightarrow>
             (case tables w (TableName input) of
                None \<Rightarrow> (Inl (AwsErr ErrCodeResourceNotFoundException), w1)
              | Some tbl \<Rightarrow>
                  (case map_of (Key input) ''Name'' of
                     Some (AttrS k) \<Rightarrow>
                       (let it = (case tbl k of None \<Rightarrow> Map.empty | Some i \<Rightarrow> i)
                        in case evalCondition names vals it (ConditionExpression input) of
                             None \<Rightarrow> (Inl (AwsErr ErrCodeValidationException), w1)
                           | Some False \<Rightarrow>
                               (Inl (AwsErr ErrCodeConditionalCheckFailedException), w1)
                           | Some True \<Rightarrow>
                               (case applySet names vals (UpdateExpression input)
                                       (it(''Name'' \<mapsto> AttrS k)) of
                                  None \<Rightarrow> (Inl (AwsErr ErrCodeValidationException), w1)
                                | Some it' \<Rightarrow>
                                    (Inr (if ReturnValues input = Some ''ALL_NEW'' then it'
                                          else Map.empty),
                                     w1\<lparr>tables := (tables w)(TableName input \<mapsto> tbl(k \<mapsto> it'))\<rparr>)))
                   | _ \<Rightarrow> (Inl (AwsErr ErrCodeValidationException), w1))))"

subsection \<open>tryLock and tryUnlock\<close>

text \<open>
  \<^verbatim>\<open>tryLock\<close> reads the clock once for \<^verbatim>\<open>:lastwrite\<close> and, when \<^verbatim>\<open>Expiry > 0\<close>, once more
  for \<^verbatim>\<open>:nowminusexpiry\<close>; the two readings are \<open>now1\<close> and \<open>now2\<close>.
\<close>

definition tryLock_input :: "int64 \<Rightarrow> int64 \<Rightarrow> Mutex \<Rightarrow> UpdateItemInput" where
  "tryLock_input now1 now2 m =
     (let condition =
            Or (Or (Or (attribute_not_exists ''#name'') (attribute_not_exists ''#id''))
                   (Compare ''#id'' CmpEq '':zero''))
               (Compare ''#id'' CmpEq '':id'');
          expressionAttributeValues =
            [('':lastwrite'', AttrN (sint now1)),
             ('':id'', AttrN (sint (id_m m))),
             ('':zero'', AttrN 0)]
      in \<lparr>ConditionExpression =
             (if 0 < sint (Expiry m)
              then Or condition
                     (And (Compare ''#id'' CmpNe '':id'')
                          (Compare ''#lastwrite'' CmpLt '':nowminusexpiry''))
              else condition),
           ExpressionAttributeNames =
             [(''#name'', ''Name''), (''#lastwrite'', ''LastWrite''), (''#id'', ''LockerID'')],
           ExpressionAttributeValues =
             (if 0 < sint (Expiry m)
              then expressionAttributeValues @
                     [('':nowminusexpiry'', AttrN (sint (now2 - Expiry m)))]
              else expressionAttributeValues),
           Key = [(''Name'', AttrS (Name m))],
           ReturnValues = Some ''ALL_NEW'',
           UpdateExpression = [(''#lastwrite'', '':lastwrite''), (''#id'', '':id'')],
           TableName = DDBTableName m\<rparr>)"

text \<open>
  The result is the \<^verbatim>\<open>err\<close> returned (\<open>None\<close> for nil), or the panic of \<^verbatim>\<open>*value.S\<close> when
  the stored \<^verbatim>\<open>Value\<close> is not a string.
\<close>

definition tryLock ::
  "error option \<Rightarrow> int64 \<Rightarrow> int64 \<Rightarrow> Mutex \<Rightarrow> world \<Rightarrow> (panic + error option) \<times> Mutex \<times> world" where
  "tryLock fault now1 now2 m w =
     (case UpdateItem fault (tryLock_input now1 now2 m) w of
        (Inl err, w') \<Rightarrow> (Inr (Some err), m, w')
      | (Inr attributes, w') \<Rightarrow>
          (case attributes ''Value'' of
             None \<Rightarrow> (Inr None, m, w')
           | Some (AttrS v) \<Rightarrow> (Inr None, m\<lparr>Value := v\<rparr>, w')
           | Some (AttrN _) \<Rightarrow> (Inl NilPointerDereference, m, w')))"

definition tryUnlock_input :: "int64 \<Rightarrow> Mutex \<Rightarrow> UpdateItemInput" where
  "tryUnlock_input now m =
     \<lparr>ConditionExpression =
        Or (attribute_not_exists ''#name'') (Compare ''#id'' CmpEq '':id''),
      ExpressionAttributeNames =
        [(''#name'', ''Name''), (''#value'', ''Value''), (''#lastwrite'', ''LastWrite''),
         (''#id'', ''LockerID'')],
      ExpressionAttributeValues =
        [('':lastwrite'', AttrN (sint now)),
         ('':id'', AttrN (sint (id_m m))),
         ('':zero'', AttrN 0),
         ('':value'', AttrS (Value m))],
      Key = [(''Name'', AttrS (Name m))],
      ReturnValues = None,
      UpdateExpression =
        [(''#lastwrite'', '':lastwrite''), (''#id'', '':zero''), (''#value'', '':value'')],
      TableName = DDBTableName m\<rparr>"

definition tryUnlock :: "error option \<Rightarrow> int64 \<Rightarrow> Mutex \<Rightarrow> world \<Rightarrow> error option \<times> world" where
  "tryUnlock fault now m w =
     (case UpdateItem fault (tryUnlock_input now m) w of
        (Inl err, w') \<Rightarrow> (Some err, w')
      | (Inr _, w') \<Rightarrow> (None, w'))"

subsection \<open>initialization\<close>

text \<open>
  What the environment answers during \<^verbatim>\<open>initialization\<close>: the error of creating the AWS
  session, the table names and the error of \<^verbatim>\<open>ListTables\<close>, the error of \<^verbatim>\<open>CreateTable\<close>,
  the successive answers of \<^verbatim>\<open>DescribeTable\<close> (the table status, \<open>None\<close> when the
  description carries no table, and the error), and the successive results of
  \<^verbatim>\<open>rand.Int63()\<close>. Which credentials the session uses is outside the model.
\<close>

record init_env =
  NewSession :: "error option"
  ListTables :: "string list \<times> error option"
  CreateTable :: "error option"
  DescribeTable :: "(string option \<times> error option) list"
  Int63 :: "int64 list"

definition TableStatusActive :: string where
  "TableStatusActive = ''ACTIVE''"

definition TableStatusCreating :: string where
  "TableStatusCreating = ''CREATING''"

definition Second :: int64 where
  "Second = 1000000000"

definition Millisecond :: int64 where
  "Millisecond = 1000000"

definition error_string :: "error \<Rightarrow> string" where
  "error_string e = (case e of AwsErr c \<Rightarrow> c | OtherErr t \<Rightarrow> t)"

text \<open>The panic of a failed \<^verbatim>\<open>CreateTable\<close>: every error but \<^verbatim>\<open>ResourceInUseException\<close>.\<close>

definition createTable_panic :: "error option \<Rightarrow> panic option" where
  "createTable_panic r =
     (case r of
        None \<Rightarrow> None
      | Some (AwsErr code) \<Rightarrow>
          if code \<noteq> ErrCodeResourceInUseException then Some (TableNotCreated (AwsErr code))
          else None
      | Some (OtherErr t) \<Rightarrow> Some (TableNotCreated (OtherErr t)))"

text \<open>The polling loop: \<open>None\<close> while every answer so far was \<^verbatim>\<open>CREATING\<close>.\<close>

fun awaitActive :: "(string option \<times> error option) list \<Rightarrow> (panic + unit) option" where
  "awaitActive [] = None"
| "awaitActive ((status, err) # rest) =
     (case status of
        None \<Rightarrow> Some (Inl NilPointerDereference)
      | Some st \<Rightarrow>
          if st = TableStatusActive then Some (Inr ())
          else if st = TableStatusCreating then awaitActive rest
          else Some (Inl (CouldNotAccessTable
                 (case err of
                    None \<Rightarrow> ''error activating table. Table status: '' @ st
                  | Some e \<Rightarrow> error_string e))))"

text \<open>\<^verbatim>\<open>for m.id == 0 { m.id = rand.Int63() }\<close>\<close>

fun newSessionID :: "int64 \<Rightarrow> int64 list \<Rightarrow> int64 option" where
  "newSessionID i [] = (if i = 0 then None else Some i)"
| "newSessionID i (r # rs) = (if i = 0 then newSessionID r rs else Some i)"

text \<open>
  The result is the panic or the \<^verbatim>\<open>err\<close> returned, with the Mutex as the call leaves it;
  \<open>None\<close> when a loop has not ended on the answers given.
\<close>

definition initialization :: "init_env \<Rightarrow> Mutex \<Rightarrow> ((panic + error option) \<times> Mutex) option" where
  "initialization env m =
     (if initialized m then Some (Inr None, m)
      else
        let m1 = m\<lparr>AWSRegion := (if AWSRegion m = [] then ''us-east-1'' else AWSRegion m),
                   DDBTableName := (if DDBTableName m = [] then ''Locks'' else DDBTableName m),
                   Name := (if Name m = [] then ''Lock'' else Name m),
                   Value := (if Value m = [] then ''0'' else Value m)\<rparr>
        in case (if AWSSession m1 = None then NewSession env else None) of
             Some e \<Rightarrow> Some (Inl (StoreError e), m1)
           | None \<Rightarrow>
               (let m2 = m1\<lparr>AWSSession := (if AWSSession m1 = None then Some (AWSRegion m1)
                                             else AWSSession m1)\<rparr>;
                    m3 = m2\<lparr>DDBSession := (if DDBSession m2 = None then AWSSession m2
                                             else DDBSession m2)\<rparr>;
                    found = (DDBTableName m3 \<in> set (fst (ListTables env)));
                    err = snd (ListTables env)
                in case (if found then None else createTable_panic (CreateTable env)) of
                     Some p \<Rightarrow> Some (Inl p, m3)
                   | None \<Rightarrow>
                       (case awaitActive (DescribeTable env) of
                          None \<Rightarrow> None
                        | Some (Inl p) \<Rightarrow> Some (Inl p, m3)
                        | Some (Inr _) \<Rightarrow>
                            (case newSessionID (id_m m3) (Int63 env) of
                               None \<Rightarrow> None
                             | Some i \<Rightarrow>
                                 Some (Inr err,
                                       m3\<lparr>id_m := i,
                                          timeout := (if timeoutSet m3 then timeout m3
                                                      else 5 * Second),
                                          initialized := True\<rparr>)))))"

subsection \<open>Lock and Unlock\<close>

text \<open>
  One turn of the loop of \<^verbatim>\<open>Lock\<close>, as the environment sees it: the requests of other
  clients that reach the store before the attempt (each with its own fault), the fault
  of the attempt's own call, the clock readings of \<^verbatim>\<open>tryLock\<close>, the clock reading of the
  timeout test, and the result of \<^verbatim>\<open>rand.Intn(10)\<close>.
\<close>

record tick =
  others :: "(error option \<times> UpdateItemInput) list"
  fault :: "error option"
  now_lastwrite :: int64
  now_expiry :: int64
  now_timeout :: int64
  intn :: nat

definition run_others :: "(error option \<times> UpdateItemInput) list \<Rightarrow> world \<Rightarrow> world" where
  "run_others rs w = foldl (\<lambda>w' r. snd (UpdateItem (fst r) (snd r) w')) w rs"

definition backoff :: "tick \<Rightarrow> int64" where
  "backoff t = word_of_nat (intn t mod 10) * Millisecond"

text \<open>
  The loop of \<^verbatim>\<open>Lock\<close>. \<open>Inr ()\<close> is the normal return; \<open>None\<close> means that the loop is
  still retrying when the turns given are used up.
\<close>

fun lockLoop :: "int64 \<Rightarrow> tick list \<Rightarrow> Mutex \<Rightarrow> world \<Rightarrow> ((panic + unit) \<times> Mutex \<times> world) option" where
  "lockLoop started [] m w = None"
| "lockLoop started (t # ts) m w =
     (case tryLock (fault t) (now_lastwrite t) (now_expiry t) m (run_others (others t) w) of
        (Inl p, m', w') \<Rightarrow> Some (Inl p, m', w')
      | (Inr None, m', w') \<Rightarrow> Some (Inr (), m', w')
      | (Inr (Some (AwsErr code)), m', w') \<Rightarrow>
          if code = ErrCodeConditionalCheckFailedException
          then (if sint started < sint (now_timeout t - timeout m')
                then Some (Inl FailedToAcquire, m', w')
                else lockLoop started ts m' (w'\<lparr>sleeps := sleeps w' @ [backoff t]\<rparr>))
          else Some (Inl (StoreError (AwsErr code)), m', w')
      | (Inr (Some (OtherErr e)), m', w') \<Rightarrow> Some (Inl (StoreError (OtherErr e)), m', w'))"

definition Lock ::
  "init_env \<Rightarrow> int64 \<Rightarrow> tick list \<Rightarrow> Mutex \<Rightarrow> world \<Rightarrow> ((panic + unit) \<times> Mutex \<times> world) option" where
  "Lock env started ticks m w =
     (case initialization env m of
        None \<Rightarrow> None
      | Some (Inl p, m1) \<Rightarrow> Some (Inl p, m1, w)
      | Some (Inr _, m1) \<Rightarrow> lockLoop started ticks m1 w)"

definition Unlock ::
  "init_env \<Rightarrow> error option \<Rightarrow> int64 \<Rightarrow> Mutex \<Rightarrow> world \<Rightarrow> ((panic + unit) \<times> Mutex \<times> world) option" where
  "Unlock env flt now m w =
     (case initialization env m of
        None \<Rightarrow> None
      | Some (Inl p, m1) \<Rightarrow> Some (Inl p, m1, w)
      | Some (Inr _, m1) \<Rightarrow>
          (case tryUnlock flt now m1 w of
             (None, w') \<Rightarrow> Some (Inr (), m1, w')
           | (Some (AwsErr code), w') \<Rightarrow>
               if code = ErrCodeConditionalCheckFailedException then Some (Inl NotHolder, m1, w')
               else Some (Inl (StoreError (AwsErr code)), m1, w')
           | (Some (OtherErr e), w') \<Rightarrow> Some (Inl (StoreError (OtherErr e)), m1, w')))"

definition LockAndGetValueString ::
  "init_env \<Rightarrow> int64 \<Rightarrow> tick list \<Rightarrow> Mutex \<Rightarrow> world \<Rightarrow> ((panic + string) \<times> Mutex \<times> world) option" where
  "LockAndGetValueString env started ticks m w =
     (case Lock env started ticks m w of
        None \<Rightarrow> None
      | Some (Inl p, m', w') \<Rightarrow> Some (Inl p, m', w')
      | Some (Inr _, m', w') \<Rightarrow> Some (Inr (GetValueString m'), m', w'))"

definition SetValueStringAndUnlock ::
  "string \<Rightarrow> init_env \<Rightarrow> error option \<Rightarrow> int64 \<Rightarrow> Mutex \<Rightarrow> world \<Rightarrow> ((panic + unit) \<times> Mutex \<times> world) option" where
  "SetValueStringAndUnlock v env flt now m w = Unlock env flt now (SetValueString v m) w"

subsection \<open>The conditions in the spec's words\<close>

text \<open>
  The acquire and release conditions as the spec writes them, over the stored item (the
  empty item when the record is absent): \<open>HolderID\<close> is the attribute \<^verbatim>\<open>LockerID\<close>.
\<close>

definition acquire_condition :: "Mutex \<Rightarrow> int64 \<Rightarrow> item \<Rightarrow> bool" where
  "acquire_condition m now it =
     (it ''Name'' = None \<or> it ''LockerID'' = None \<or> it ''LockerID'' = Some (AttrN 0) \<or>
      it ''LockerID'' = Some (AttrN (sint (id_m m))) \<or>
      (0 < sint (Expiry m) \<and> it ''LockerID'' \<noteq> Some (AttrN (sint (id_m m))) \<and>
       (case it ''LastWrite'' of
          Some (AttrN lastWrite) \<Rightarrow> lastWrite < sint (now - Expiry m)
        | _ \<Rightarrow> False)))"

definition release_condition :: "Mutex \<Rightarrow> item \<Rightarrow> bool" where
  "release_condition m it =
     (it ''Name'' = None \<or> it ''LockerID'' = Some (AttrN (sint (id_m m))))"

subsection \<open>Several clients on one store\<close>






subsection \<open>The operations of one client, in sequence\<close>

datatype operation =
    DoInitialization init_env
  | DoLock init_env int64 "tick list"
  | DoUnlock init_env "error option" int64
  | DoGetValueInt64
  | DoSetValueInt64 int64
  | DoGetValueString
  | DoSetValueString string
  | DoLockAndGetValueString init_env int64 "tick list"
  | DoSetValueStringAndUnlock string init_env "error option" int64
  | DoWithTimeout int64
  | DoGetTimeout

text \<open>
  The Mutex and the world after an operation, whether it returned or panicked; \<open>None\<close>
  when it has not returned. The getters leave both as they are.
\<close>

fun perform :: "operation \<Rightarrow> Mutex \<times> world \<Rightarrow> (Mutex \<times> world) option" where
  "perform (DoInitialization env) (m, w) =
     (case initialization env m of None \<Rightarrow> None | Some (r, m') \<Rightarrow> Some (m', w))"
| "perform (DoLock env started ticks) (m, w) =
     (case Lock env started ticks m w of None \<Rightarrow> None | Some (r, m', w') \<Rightarrow> Some (m', w'))"
| "perform (DoUnlock env flt now) (m, w) =
     (case Unlock env flt now m w of None \<Rightarrow> None | Some (r, m', w') \<Rightarrow> Some (m', w'))"
| "perform DoGetValueInt64 (m, w) = Some (m, w)"
| "perform (DoSetValueInt64 v) (m, w) = Some (SetValueInt64 v m, w)"
| "perform DoGetValueString (m, w) = Some (m, w)"
| "perform (DoSetValueString v) (m, w) = Some (SetValueString v m, w)"
| "perform (DoLockAndGetValueString env started ticks) (m, w) =
     (case LockAndGetValueString env started ticks m w of
        None \<Rightarrow> None
      | Some (r, m', w') \<Rightarrow> Some (m', w'))"
| "perform (DoSetValueStringAndUnlock v env flt now) (m, w) =
     (case SetValueStringAndUnlock v env flt now m w of
        None \<Rightarrow> None
      | Some (r, m', w') \<Rightarrow> Some (m', w'))"
| "perform (DoWithTimeout t) (m, w) = Some (WithTimeout t m, w)"
| "perform DoGetTimeout (m, w) = Some (m, w)"

fun performAll :: "operation list \<Rightarrow> Mutex \<times> world \<Rightarrow> (Mutex \<times> world) option" where
  "performAll [] s = Some s"
| "performAll (x # xs) s = (case perform x s of None \<Rightarrow> None | Some s' \<Rightarrow> performAll xs s')"

subsection \<open>Ownership of the stored record\<close>





subsection \<open>Concrete clients and worlds\<close>

text \<open>
  An environment in which the table \<^verbatim>\<open>Locks\<close> exists and is active; the client that
  \<^verbatim>\<open>Mutex{}\<close> becomes by its first initialization there when \<^verbatim>\<open>rand.Int63()\<close> yields \<open>i\<close>;
  a table with no record; a table whose record \<^verbatim>\<open>Lock\<close> is held by session 7 since
  time 100.
\<close>

definition ready_env :: "int64 list \<Rightarrow> init_env" where
  "ready_env draws = \<lparr>NewSession = None, ListTables = ([''Locks''], None), CreateTable = None,
     DescribeTable = [(Some ''ACTIVE'', None)], Int63 = draws\<rparr>"

definition session :: "int64 \<Rightarrow> Mutex" where
  "session i = \<lparr>initialized = True, Name = ''Lock'', Value = ''0'', Expiry = 0, id_m = i,
     AWSRegion = ''us-east-1'', AWSSession = Some ''us-east-1'', IgnoreEnvVars = False,
     DDBSession = Some ''us-east-1'', DDBTableName = ''Locks'', timeout = 5 * Second,
     timeoutSet = False\<rparr>"

definition fresh_world :: world where
  "fresh_world = \<lparr>tables = [''Locks'' \<mapsto> Map.empty], requests = [], sleeps = []\<rparr>"

definition held_world :: world where
  "held_world =
     \<lparr>tables = [''Locks'' \<mapsto> [''Lock'' \<mapsto>
        [''Name'' \<mapsto> AttrS ''Lock'', ''LastWrite'' \<mapsto> AttrN 100, ''LockerID'' \<mapsto> AttrN 7]]],
      requests = [], sleeps = []\<rparr>"


text \<open>A turn of the loop of \<^verbatim>\<open>Lock\<close> with nothing else happening, its clock at \<open>now\<close>.\<close>

definition quiet_tick :: "int64 \<Rightarrow> tick" where
  "quiet_tick now = \<lparr>others = [], fault = None, now_lastwrite = now, now_expiry = now,
     now_timeout = now, intn = 3\<rparr>"

text \<open>A turn before which session 7 releases the lock.\<close>

definition release_tick :: "int64 \<Rightarrow> tick" where
  "release_tick now = \<lparr>others = [(None, tryUnlock_input now (session 7))], fault = None,
     now_lastwrite = now, now_expiry = now, now_timeout = now, intn = 3\<rparr>"



text \<open>
  Environments in which the table is being deleted, and in which it is still being
  created at every answer given.
\<close>

definition deleting_env :: init_env where
  "deleting_env = \<lparr>NewSession = None, ListTables = ([''Locks''], None), CreateTable = None,
     DescribeTable = [(Some ''DELETING'', None)], Int63 = [7]\<rparr>"

definition creating_env :: init_env where
  "creating_env = \<lparr>NewSession = None, ListTables = ([''Locks''], None), CreateTable = None,
     DescribeTable = [(Some ''CREATING'', None), (Some ''CREATING'', None)], Int63 = [7]\<rparr>"

section \<open>Decimal strings\<close>

text \<open>
  \<open>ParseUint\<close>'s loop computes the positional value of a digit string, \<open>decimal\<close>
  writes one, and \<open>ParseInt\<close> accepts exactly the literals of the spec.
\<close>

lemma decimal_value_snoc: "decimal_value (cs @ [c]) = decimal_value cs * 10 + digit_nat c"
  by (induction cs) (auto simp: algebra_simps)

lemma digit_nat_char: "d < 10 \<Longrightarrow> digit_nat (digit_char d) = d"
  by (simp add: digit_nat_def digit_char_def)

lemma is_digit_char: "d < 10 \<Longrightarrow> is_digit (digit_char d)"
  by (simp add: is_digit_def digit_char_def)

lemma decimal_digits: "list_all is_digit (decimal n)"
  by (induction n rule: decimal.induct) (subst decimal.simps, simp add: is_digit_char)

lemma decimal_nonempty: "decimal n \<noteq> []"
  by (subst decimal.simps) simp

lemma decimal_value_decimal: "decimal_value (decimal n) = n"
  by (induction n rule: decimal.induct)
     (subst decimal.simps, simp add: decimal_value_snoc digit_nat_char)

lemma cutoff_mult: "n \<ge> maxUint64 div 10 + 1 \<Longrightarrow> n * 10 > maxUint64"
  by (simp add: maxUint64_def)

lemma parseUint_loop_digits:
  "list_all is_digit cs \<Longrightarrow> n \<le> maxUint64 \<Longrightarrow>
   parseUint_loop n cs =
     (if n * 10 ^ length cs + decimal_value cs \<le> maxUint64
      then Inr (n * 10 ^ length cs + decimal_value cs) else Inl ErrRange)"
proof (induction cs arbitrary: n)
  case Nil
  then show ?case by simp
next
  case (Cons c cs)
  let ?d = "digit_nat c"
  let ?k = "(10::nat) ^ length cs"
  have dig: "is_digit c" and rest: "list_all is_digit cs" using Cons.prems by simp_all
  have total: "n * 10 ^ length (c # cs) + decimal_value (c # cs)
      = (n * 10 + ?d) * ?k + decimal_value cs"
    by (simp add: algebra_simps)
  have kpos: "1 \<le> ?k" by simp
  show ?case
  proof (cases "n \<ge> maxUint64 div 10 + 1")
    case True
    then have "maxUint64 < n * 10" by (rule cutoff_mult)
    also have "n * 10 \<le> (n * 10 + ?d) * ?k"
      using kpos by (metis le_add1 mult.right_neutral mult_le_mono)
    finally have "\<not> (n * 10 + ?d) * ?k + decimal_value cs \<le> maxUint64" by linarith
    with True dig show ?thesis unfolding total by simp
  next
    case False
    show ?thesis
    proof (cases "n * 10 + ?d > maxUint64")
      case True
      have "n * 10 + ?d \<le> (n * 10 + ?d) * ?k" using kpos by simp
      with True have "\<not> (n * 10 + ?d) * ?k + decimal_value cs \<le> maxUint64" by linarith
      with True False dig show ?thesis unfolding total by (simp add: Let_def)
    next
      case big: False
      from False big dig show ?thesis
        unfolding total using Cons.IH [OF rest, of "n * 10 + ?d"]
        by (simp add: Let_def)
    qed
  qed
qed

lemma parseUint_loop_syntax:
  "\<not> list_all is_digit cs \<Longrightarrow> \<exists>e. parseUint_loop n cs = Inl e"
  by (induction cs arbitrary: n) (simp_all add: Let_def)

lemma ParseUint_digits:
  "ds \<noteq> [] \<Longrightarrow> list_all is_digit ds \<Longrightarrow>
   ParseUint ds = (if decimal_value ds \<le> maxUint64 then Inr (decimal_value ds) else Inl ErrRange)"
  using parseUint_loop_digits [of ds 0] by (simp add: ParseUint_def)

lemma ParseUint_Inl:
  "ds = [] \<or> \<not> list_all is_digit ds \<Longrightarrow> \<exists>e. ParseUint ds = Inl e"
  using parseUint_loop_syntax [of ds 0] by (auto simp: ParseUint_def)

lemma sign_not_digit: "\<not> is_digit CHR ''+''" "\<not> is_digit CHR ''-''"
  by (simp_all add: is_digit_def)

lemma digits_hd_no_sign:
  "ds \<noteq> [] \<Longrightarrow> list_all is_digit ds \<Longrightarrow> hd ds \<noteq> CHR ''+'' \<and> hd ds \<noteq> CHR ''-''"
  using sign_not_digit by (cases ds) auto

lemma ParseInt_digits_part:
  "s \<noteq> [] \<Longrightarrow>
   ParseInt s =
     (case ParseUint (digits_part s) of
        Inl e \<Rightarrow> Inl e
      | Inr un \<Rightarrow>
          if hd s \<noteq> CHR ''-'' \<and> un \<ge> 2 ^ 63 then Inl ErrRange
          else if hd s = CHR ''-'' \<and> un > 2 ^ 63 then Inl ErrRange
          else Inr (if hd s = CHR ''-'' then - word_of_nat un else word_of_nat un))"
  by (simp add: ParseInt_def digits_part_def Let_def split: sum.splits NumError.splits)

lemma ParseInt_valid:
  assumes "valid_int64_literal s"
  shows "ParseInt s = Inr (word_of_int (literal_value s))"
proof -
  let ?ds = "digits_part s"
  from assms have ne: "?ds \<noteq> []" and dig: "list_all is_digit ?ds"
    and lo: "- (2 ^ 63) \<le> literal_value s" and hi: "literal_value s < 2 ^ 63"
    by (simp_all add: valid_int64_literal_def)
  from ne have s: "s \<noteq> []" by (auto simp: digits_part_def)
  have small: "decimal_value ?ds \<le> 2 ^ 63"
    using lo hi by (auto simp: literal_value_def split: if_splits)
  then have pu: "ParseUint ?ds = Inr (decimal_value ?ds)"
    using ParseUint_digits [OF ne dig] by (simp add: maxUint64_def)
  show ?thesis
  proof (cases "hd s = CHR ''-''")
    case True
    with s pu small show ?thesis
      by (simp add: ParseInt_digits_part literal_value_def)
  next
    case False
    with s hi have "decimal_value ?ds < 2 ^ 63" by (simp add: literal_value_def)
    with False s pu show ?thesis
      by (simp add: ParseInt_digits_part literal_value_def)
  qed
qed

lemma ParseInt_invalid:
  assumes "\<not> valid_int64_literal s"
  shows "\<exists>e. ParseInt s = Inl e"
proof (cases "s = []")
  case True
  then show ?thesis by (simp add: ParseInt_def)
next
  case s: False
  let ?ds = "digits_part s"
  show ?thesis
  proof (cases "?ds = [] \<or> \<not> list_all is_digit ?ds")
    case True
    from ParseUint_Inl [OF this] obtain e where "ParseUint ?ds = Inl e" ..
    with s show ?thesis by (simp add: ParseInt_digits_part)
  next
    case False
    then have ne: "?ds \<noteq> []" and dig: "list_all is_digit ?ds" by simp_all
    from assms ne dig have range: "\<not> (- (2 ^ 63) \<le> literal_value s \<and> literal_value s < 2 ^ 63)"
      by (simp add: valid_int64_literal_def)
    show ?thesis
    proof (cases "hd s = CHR ''-''")
      case True
      with s range have "decimal_value ?ds > 2 ^ 63"
        by (auto simp: literal_value_def)
      with True s ParseUint_digits [OF ne dig] show ?thesis
        by (simp add: ParseInt_digits_part)
    next
      case False
      with s range have "decimal_value ?ds \<ge> 2 ^ 63"
        by (auto simp: literal_value_def)
      with False s ParseUint_digits [OF ne dig] show ?thesis
        by (simp add: ParseInt_digits_part)
    qed
  qed
qed

lemma FormatInt_valid:
  "valid_int64_literal (FormatInt v) \<and> literal_value (FormatInt v) = sint v"
proof (cases "sint v < 0")
  case True
  have "- (2 ^ 63) \<le> sint v" using sint_ge [of v] by simp
  with True show ?thesis
    by (simp add: valid_int64_literal_def literal_value_def digits_part_def FormatInt_def
        decimal_nonempty decimal_digits decimal_value_decimal)
next
  case False
  have hi: "sint v < 2 ^ 63" using sint_lt [of v] by simp
  have "hd (decimal (nat (sint v))) \<noteq> CHR ''+'' \<and> hd (decimal (nat (sint v))) \<noteq> CHR ''-''"
    by (rule digits_hd_no_sign [OF decimal_nonempty decimal_digits])
  with False hi show ?thesis
    by (simp add: valid_int64_literal_def literal_value_def digits_part_def FormatInt_def
        decimal_nonempty decimal_digits decimal_value_decimal)
qed

lemma FormatInt_nonempty: "FormatInt v \<noteq> []"
  by (simp add: FormatInt_def decimal_nonempty)

section \<open>What one call does to the store\<close>

text \<open>
  The conditions \<^verbatim>\<open>tryLock\<close> and \<^verbatim>\<open>tryUnlock\<close> send evaluate to the acquire and release
  conditions of the spec, and their \<^verbatim>\<open>SET\<close> clauses write the attributes it lists.
\<close>

lemma compare_lt_case:
  "compare_attr CmpLt a (AttrN y) = (case a of Some (AttrN x) \<Rightarrow> x < y | _ \<Rightarrow> False)"
  by (cases a; simp split: AttributeValue.splits)

lemma tryLock_condition_eval:
  "evalCondition (map_of (ExpressionAttributeNames (tryLock_input now1 now2 m)))
     (map_of (ExpressionAttributeValues (tryLock_input now1 now2 m))) it
     (ConditionExpression (tryLock_input now1 now2 m)) = Some (acquire_condition m now2 it)"
  by (simp add: tryLock_input_def acquire_condition_def Let_def compare_lt_case)

lemma tryLock_applySet:
  "applySet (map_of (ExpressionAttributeNames (tryLock_input now1 now2 m)))
     (map_of (ExpressionAttributeValues (tryLock_input now1 now2 m)))
     (UpdateExpression (tryLock_input now1 now2 m)) it
   = Some (it(''LastWrite'' \<mapsto> AttrN (sint now1), ''LockerID'' \<mapsto> AttrN (sint (id_m m))))"
  by (simp add: tryLock_input_def Let_def)

lemma tryUnlock_condition_eval:
  "evalCondition (map_of (ExpressionAttributeNames (tryUnlock_input now m)))
     (map_of (ExpressionAttributeValues (tryUnlock_input now m))) it
     (ConditionExpression (tryUnlock_input now m)) = Some (release_condition m it)"
  by (simp add: tryUnlock_input_def release_condition_def)

lemma tryUnlock_applySet:
  "applySet (map_of (ExpressionAttributeNames (tryUnlock_input now m)))
     (map_of (ExpressionAttributeValues (tryUnlock_input now m)))
     (UpdateExpression (tryUnlock_input now m)) it
   = Some (it(''LastWrite'' \<mapsto> AttrN (sint now), ''LockerID'' \<mapsto> AttrN 0,
              ''Value'' \<mapsto> AttrS (Value m)))"
  by (simp add: tryUnlock_input_def)

lemma UpdateItem_requests: "requests (snd (UpdateItem flt input w)) = requests w @ [input]"
  by (simp add: UpdateItem_def Let_def split: option.splits AttributeValue.splits bool.splits)

lemma tryLock_UpdateItem:
  "UpdateItem flt (tryLock_input now1 now2 m) w =
     (let w1 = w\<lparr>requests := requests w @ [tryLock_input now1 now2 m]\<rparr>
      in case flt of
           Some e \<Rightarrow> (Inl e, w1)
         | None \<Rightarrow>
            (case tables w (DDBTableName m) of
               None \<Rightarrow> (Inl (AwsErr ErrCodeResourceNotFoundException), w1)
             | Some tbl \<Rightarrow>
                 if acquire_condition m now2 (stored_item w (DDBTableName m) (Name m))
                 then (let it' = (stored_item w (DDBTableName m) (Name m))
                              (''Name'' \<mapsto> AttrS (Name m), ''LastWrite'' \<mapsto> AttrN (sint now1),
                               ''LockerID'' \<mapsto> AttrN (sint (id_m m)))
                       in (Inr it', w1\<lparr>tables := (tables w)(DDBTableName m \<mapsto> tbl(Name m \<mapsto> it'))\<rparr>))
                 else (Inl (AwsErr ErrCodeConditionalCheckFailedException), w1)))"
proof -
  have key: "map_of (Key (tryLock_input now1 now2 m)) ''Name'' = Some (AttrS (Name m))"
    and tn: "TableName (tryLock_input now1 now2 m) = DDBTableName m"
    and rv: "ReturnValues (tryLock_input now1 now2 m) = Some ''ALL_NEW''"
    by (simp_all add: tryLock_input_def Let_def)
  show ?thesis
    unfolding UpdateItem_def
    by (simp add: key tn rv tryLock_condition_eval tryLock_applySet stored_item_def Let_def
        split: option.splits)
qed

lemma tryUnlock_UpdateItem:
  "UpdateItem flt (tryUnlock_input now m) w =
     (let w1 = w\<lparr>requests := requests w @ [tryUnlock_input now m]\<rparr>
      in case flt of
           Some e \<Rightarrow> (Inl e, w1)
         | None \<Rightarrow>
            (case tables w (DDBTableName m) of
               None \<Rightarrow> (Inl (AwsErr ErrCodeResourceNotFoundException), w1)
             | Some tbl \<Rightarrow>
                 if release_condition m (stored_item w (DDBTableName m) (Name m))
                 then (let it' = (stored_item w (DDBTableName m) (Name m))
                              (''Name'' \<mapsto> AttrS (Name m), ''LastWrite'' \<mapsto> AttrN (sint now),
                               ''LockerID'' \<mapsto> AttrN 0, ''Value'' \<mapsto> AttrS (Value m))
                       in (Inr Map.empty, w1\<lparr>tables := (tables w)(DDBTableName m \<mapsto> tbl(Name m \<mapsto> it'))\<rparr>))
                 else (Inl (AwsErr ErrCodeConditionalCheckFailedException), w1)))"
proof -
  have key: "map_of (Key (tryUnlock_input now m)) ''Name'' = Some (AttrS (Name m))"
    and tn: "TableName (tryUnlock_input now m) = DDBTableName m"
    and rv: "ReturnValues (tryUnlock_input now m) = None"
    by (simp_all add: tryUnlock_input_def Let_def)
  show ?thesis
    unfolding UpdateItem_def
    by (simp add: key tn rv tryUnlock_condition_eval tryUnlock_applySet stored_item_def Let_def
        split: option.splits)
qed

lemma tryLock_keeps_settings:
  "id_m (fst (snd (tryLock flt n1 n2 m w))) = id_m m \<and>
   Expiry (fst (snd (tryLock flt n1 n2 m w))) = Expiry m \<and>
   Name (fst (snd (tryLock flt n1 n2 m w))) = Name m \<and>
   DDBTableName (fst (snd (tryLock flt n1 n2 m w))) = DDBTableName m"
  by (simp add: tryLock_def split: prod.splits sum.splits option.splits AttributeValue.splits)

lemma tryLock_world: "snd (snd (tryLock flt n1 n2 m w)) = snd (UpdateItem flt (tryLock_input n1 n2 m) w)"
  by (simp add: tryLock_def split: prod.splits sum.splits option.splits AttributeValue.splits)

lemma tryUnlock_world: "snd (tryUnlock flt now m w) = snd (UpdateItem flt (tryUnlock_input now m) w)"
  by (simp add: tryUnlock_def split: prod.splits sum.splits)

lemma tryLock_requests:
  "requests (snd (snd (tryLock flt now1 now2 m w))) = requests w @ [tryLock_input now1 now2 m]"
  by (simp add: tryLock_world UpdateItem_requests)

lemma tryUnlock_requests:
  "requests (snd (tryUnlock flt now m w)) = requests w @ [tryUnlock_input now m]"
  by (simp add: tryUnlock_world UpdateItem_requests)



lemma tryLock_result:
  "fst (tryLock flt n1 n2 m w) =
     (case flt of
        Some e \<Rightarrow> Inr (Some e)
      | None \<Rightarrow>
          (case tables w (DDBTableName m) of
             None \<Rightarrow> Inr (Some (AwsErr ErrCodeResourceNotFoundException))
           | Some tbl \<Rightarrow>
               if acquire_condition m n2 (stored_item w (DDBTableName m) (Name m))
               then (case stored_item w (DDBTableName m) (Name m) ''Value'' of
                       Some (AttrN x) \<Rightarrow> Inl NilPointerDereference
                     | _ \<Rightarrow> Inr None)
               else Inr (Some (AwsErr ErrCodeConditionalCheckFailedException))))"
proof (cases flt)
  case (Some e)
  then show ?thesis by (simp add: tryLock_def tryLock_UpdateItem)
next
  case None
  show ?thesis
  proof (cases "tables w (DDBTableName m)")
    case none: None
    with None show ?thesis by (simp add: tryLock_def tryLock_UpdateItem)
  next
    case (Some tbl)
    show ?thesis
    proof (cases "acquire_condition m n2 (stored_item w (DDBTableName m) (Name m))")
      case True
      with None Some show ?thesis
        by (simp add: tryLock_def tryLock_UpdateItem Let_def
            split: option.splits AttributeValue.splits)
    next
      case False
      with None Some show ?thesis by (simp add: tryLock_def tryLock_UpdateItem)
    qed
  qed
qed


lemma tryLock_failed_mutex:
  "fst (tryLock flt n1 n2 m w) = Inr (Some e) \<Longrightarrow> fst (snd (tryLock flt n1 n2 m w)) = m"
  by (auto simp: tryLock_def split: prod.splits sum.splits option.splits AttributeValue.splits)

lemma tryLock_panic:
  "fst (tryLock flt n1 n2 m w) = Inl p \<Longrightarrow> p = NilPointerDereference"
  by (auto simp: tryLock_def split: prod.splits sum.splits option.splits AttributeValue.splits)

section \<open>Ownership is kept by every call of another session\<close>



lemma sint_diff_no_wrap:
  fixes n e :: int64
  assumes "0 < sint e" "0 \<le> sint n"
  shows "sint (n - e) = sint n - sint e"
proof -
  have "sint n < 2 ^ 63" "sint e < 2 ^ 63" using sint_lt [of n] sint_lt [of e] by simp_all
  with assms have "- (2 ^ 63) \<le> sint n - sint e" "sint n - sint e < 2 ^ 63" by simp_all
  then have "signed_take_bit 63 (sint n - sint e) = sint n - sint e"
    by (simp add: signed_take_bit_int_eq_self)
  then show ?thesis by (simp add: sint_word_diff)
qed








section \<open>Steps of several clients\<close>










section \<open>initialization, the loop of Lock, Unlock\<close>

lemma newSessionID_Some:
  "newSessionID i draws = Some j \<Longrightarrow> j \<noteq> 0 \<and> (i \<noteq> 0 \<longrightarrow> j = i)"
  by (induction i draws rule: newSessionID.induct) (auto split: if_splits)

lemma initialized_initialization: "initialized m \<Longrightarrow> initialization env m = Some (Inr None, m)"
  by (simp add: initialization_def)

lemma initialization_id:
  assumes "initialization env m = Some (r, m')" and "id_m m \<noteq> 0"
  shows "id_m m' = id_m m"
proof (cases "initialized m")
  case True
  with assms show ?thesis by (simp add: initialization_def)
next
  case False
  with assms show ?thesis
    by (auto simp: initialization_def Let_def dest: newSessionID_Some
        split: option.splits sum.splits)
qed

lemma initialization_first:
  assumes "initialization env m = Some (Inr e, m')" and "\<not> initialized m"
  shows "id_m m' \<noteq> 0 \<and> initialized m'"
  using assms
  by (auto simp: initialization_def Let_def dest: newSessionID_Some
      split: option.splits sum.splits)

lemma lockLoop_contention:
  assumes "fst (tryLock (fault t) (now_lastwrite t) (now_expiry t) m (run_others (others t) w))
             = Inr (Some (AwsErr ErrCodeConditionalCheckFailedException))"
  shows "lockLoop started (t # ts) m w =
     (let w1 = snd (snd (tryLock (fault t) (now_lastwrite t) (now_expiry t) m
                      (run_others (others t) w)))
      in if sint started < sint (now_timeout t - timeout m)
         then Some (Inl FailedToAcquire, m, w1)
         else lockLoop started ts m (w1\<lparr>sleeps := sleeps w1 @ [backoff t]\<rparr>))"
proof -
  obtain r m' w' where t: "tryLock (fault t) (now_lastwrite t) (now_expiry t) m
      (run_others (others t) w) = (r, m', w')"
    by (cases "tryLock (fault t) (now_lastwrite t) (now_expiry t) m (run_others (others t) w)") auto
  with assms have r: "r = Inr (Some (AwsErr ErrCodeConditionalCheckFailedException))" by simp
  from tryLock_failed_mutex [OF assms] t have m': "m' = m" by simp
  show ?thesis by (simp add: t r m' Let_def)
qed

lemma lockLoop_never_surfaces:
  "lockLoop started ticks m w \<noteq>
     Some (Inl (StoreError (AwsErr ErrCodeConditionalCheckFailedException)), m', w')"
proof (induction ticks arbitrary: m w)
  case Nil
  show ?case by simp
next
  case (Cons t ts)
  have "p = NilPointerDereference"
    if "tryLock (fault t) (now_lastwrite t) (now_expiry t) m (run_others (others t) w) = (Inl p, a, b)"
    for p a b
    using tryLock_panic [of "fault t" "now_lastwrite t" "now_expiry t" m "run_others (others t) w" p] that
    by simp
  then show ?case
    using Cons.IH
    by (auto split: prod.splits sum.splits option.splits error.splits)
qed

lemma lockLoop_requests:
  assumes "lockLoop started ticks m w = Some (r, m', w')"
    and "\<forall>t \<in> set ticks. others t = []"
  shows "\<exists>k. 0 < k \<and> k \<le> length ticks \<and>
           requests w' = requests w @
             map (\<lambda>t. tryLock_input (now_lastwrite t) (now_expiry t) m) (take k ticks)"
  using assms
proof (induction ticks arbitrary: w)
  case Nil
  then show ?case by simp
next
  case (Cons t ts)
  let ?T = "tryLock (fault t) (now_lastwrite t) (now_expiry t) m w"
  let ?req = "tryLock_input (now_lastwrite t) (now_expiry t) m"
  have o: "run_others (others t) w = w" using Cons.prems(2) by (simp add: run_others_def)
  obtain r1 m1 w1 where t: "?T = (r1, m1, w1)" by (cases ?T) auto
  have w1: "requests w1 = requests w @ [?req]"
    using tryLock_requests [of "fault t" "now_lastwrite t" "now_expiry t" m w] t by simp
  show ?case
  proof (cases "r1 = Inr (Some (AwsErr ErrCodeConditionalCheckFailedException)) \<and>
      \<not> sint started < sint (now_timeout t - timeout m1)")
    case True
    then have "fst ?T = Inr (Some (AwsErr ErrCodeConditionalCheckFailedException))" using t by simp
    from tryLock_failed_mutex [OF this] t have m1: "m1 = m" by simp
    from Cons.prems(1) True t o
    have rest: "lockLoop started ts m (w1\<lparr>sleeps := sleeps w1 @ [backoff t]\<rparr>) = Some (r, m', w')"
      by (simp add: m1)
    from Cons.IH [OF rest] Cons.prems(2) obtain k where k: "0 < k" "k \<le> length ts"
      "requests w' = requests (w1\<lparr>sleeps := sleeps w1 @ [backoff t]\<rparr>) @
         map (\<lambda>t. tryLock_input (now_lastwrite t) (now_expiry t) m) (take k ts)"
      by auto
    show ?thesis
      using k w1 by (intro exI [of _ "Suc k"]) simp
  next
    case False
    with Cons.prems(1) t o have "w' = w1"
      by (auto split: sum.splits option.splits error.splits if_splits)
    with w1 show ?thesis by (intro exI [of _ 1]) simp
  qed
qed

lemma lockLoop_id: "lockLoop started ticks m w = Some (r, m', w') \<Longrightarrow> id_m m' = id_m m"
proof (induction ticks arbitrary: m w)
  case Nil
  then show ?case by simp
next
  case (Cons t ts)
  let ?T = "tryLock (fault t) (now_lastwrite t) (now_expiry t) m (run_others (others t) w)"
  obtain r1 m1 w1 where t: "?T = (r1, m1, w1)" by (cases ?T) auto
  have m1: "id_m m1 = id_m m"
    using tryLock_keeps_settings [of "fault t" "now_lastwrite t" "now_expiry t" m
        "run_others (others t) w"] t by simp
  from Cons.prems t show ?case
    using Cons.IH [of m1 "w1\<lparr>sleeps := sleeps w1 @ [backoff t]\<rparr>"] m1
    by (auto split: sum.splits option.splits error.splits if_splits)
qed

lemma Lock_id:
  assumes "Lock env started ticks m w = Some (r, m', w')" and "id_m m \<noteq> 0"
  shows "id_m m' = id_m m"
  using assms
  by (auto simp: Lock_def split: option.splits prod.splits sum.splits
      dest!: initialization_id lockLoop_id)

lemma Unlock_after_initialization:
  assumes "initialization env m = Some (Inr e, m1)"
  shows "Unlock env flt now m w =
     Some (case fst (tryUnlock flt now m1 w) of
             None \<Rightarrow> Inr ()
           | Some (AwsErr code) \<Rightarrow>
               if code = ErrCodeConditionalCheckFailedException then Inl NotHolder
               else Inl (StoreError (AwsErr code))
           | Some (OtherErr t) \<Rightarrow> Inl (StoreError (OtherErr t)),
           m1, snd (tryUnlock flt now m1 w))"
  using assms
  by (simp add: Unlock_def split: prod.splits option.splits error.splits)

lemma Unlock_id:
  assumes "Unlock env flt now m w = Some (r, m', w')" and "id_m m \<noteq> 0"
  shows "id_m m' = id_m m"
  using assms
  by (auto simp: Unlock_def split: option.splits prod.splits sum.splits error.splits if_splits
      dest!: initialization_id)

lemma perform_id:
  assumes "perform x (m, w) = Some (m', w')" and "id_m m \<noteq> 0"
  shows "id_m m' = id_m m"
proof (cases x)
  case (DoInitialization env)
  with assms show ?thesis by (auto split: option.splits dest: initialization_id)
next
  case (DoLock env started ticks)
  with assms show ?thesis by (auto split: option.splits dest: Lock_id)
next
  case (DoUnlock env flt now)
  with assms show ?thesis by (auto split: option.splits dest: Unlock_id)
next
  case (DoLockAndGetValueString env started ticks)
  with assms show ?thesis
    by (auto simp: LockAndGetValueString_def split: option.splits sum.splits dest: Lock_id)
next
  case (DoSetValueStringAndUnlock v env flt now)
  with assms have "id_m m' = id_m (SetValueString v m)"
    by (auto simp: SetValueStringAndUnlock_def SetValueString_def split: option.splits
        dest!: Unlock_id)
  then show ?thesis by (simp add: SetValueString_def)
qed (use assms in \<open>auto simp: SetValueInt64_def SetValueString_def WithTimeout_def\<close>)

lemma performAll_id:
  "performAll xs (m, w) = Some (m', w') \<Longrightarrow> id_m m \<noteq> 0 \<Longrightarrow> id_m m' = id_m m"
proof (induction xs arbitrary: m w)
  case Nil
  then show ?case by simp
next
  case (Cons x xs)
  from Cons.prems(1) obtain m1 w1 where p: "perform x (m, w) = Some (m1, w1)"
    and rest: "performAll xs (m1, w1) = Some (m', w')"
    by (auto split: option.splits)
  from perform_id [OF p Cons.prems(2)] have "id_m m1 = id_m m" .
  with Cons.IH [OF rest] Cons.prems(2) show ?case by simp
qed

section \<open>The concrete clients and worlds, evaluated\<close>

lemma init_Mutex0: "initialization (ready_env [0, 7]) Mutex0 = Some (Inr None, session 7)"
  by (simp add: initialization_def ready_env_def Mutex0_def session_def Let_def
      TableStatusActive_def)


lemma held_blocks_9:
  "fst (tryLock None n1 n2 (session 9) held_world)
     = Inr (Some (AwsErr ErrCodeConditionalCheckFailedException))"
  by (simp add: tryLock_result session_def held_world_def acquire_condition_def stored_item_def)


lemma lockLoop_seizes_expired:
  "lockLoop 0 [quiet_tick 200] ((session 9)\<lparr>Expiry := 50\<rparr>) held_world
     = Some (Inr (), (session 9)\<lparr>Expiry := 50\<rparr>,
             snd (snd (tryLock None 200 200 ((session 9)\<lparr>Expiry := 50\<rparr>) held_world)))"
proof -
  have r: "fst (tryLock None 200 200 ((session 9)\<lparr>Expiry := 50\<rparr>) held_world) = Inr None"
    by (simp add: tryLock_result session_def held_world_def acquire_condition_def stored_item_def)
  have m: "fst (snd (tryLock None 200 200 ((session 9)\<lparr>Expiry := 50\<rparr>) held_world))
      = (session 9)\<lparr>Expiry := 50\<rparr>"
    by (simp add: tryLock_def tryLock_UpdateItem Let_def session_def held_world_def
        acquire_condition_def stored_item_def)
  obtain a b c where t: "tryLock None 200 200 ((session 9)\<lparr>Expiry := 50\<rparr>) held_world = (a, b, c)"
    by (cases "tryLock None 200 200 ((session 9)\<lparr>Expiry := 50\<rparr>) held_world") auto
  with r m have "a = Inr None" "b = (session 9)\<lparr>Expiry := 50\<rparr>" by simp_all
  with t show ?thesis by (simp add: quiet_tick_def run_others_def)
qed

lemma contended_first_attempt:
  "lockLoop 0 (quiet_tick (5 * Second) # ts) (session 9) held_world
     = lockLoop 0 ts (session 9)
         (held_world\<lparr>requests := [tryLock_input (5 * Second) (5 * Second) (session 9)],
                      sleeps := [backoff (quiet_tick (5 * Second))]\<rparr>)"
proof -
  have h: "fst (tryLock (fault (quiet_tick (5 * Second))) (now_lastwrite (quiet_tick (5 * Second)))
        (now_expiry (quiet_tick (5 * Second))) (session 9)
        (run_others (others (quiet_tick (5 * Second))) held_world))
      = Inr (Some (AwsErr ErrCodeConditionalCheckFailedException))"
    by (simp add: quiet_tick_def run_others_def held_blocks_9)
  have w: "snd (snd (tryLock None (5 * Second) (5 * Second) (session 9) held_world))
      = held_world\<lparr>requests := [tryLock_input (5 * Second) (5 * Second) (session 9)]\<rparr>"
    by (simp add: tryLock_world tryLock_UpdateItem session_def held_world_def
        acquire_condition_def stored_item_def)
  from lockLoop_contention [OF h, of 0 ts] show ?thesis
    by (simp add: quiet_tick_def run_others_def w Let_def)
       (simp add: session_def Second_def held_world_def)
qed

section \<open>The claims\<close>

subsection \<open>C1: mutual exclusion with \<^verbatim>\<open>Expiry = 0\<close>\<close>




subsection \<open>C2: the conditional update of an acquisition attempt\<close>

text \<open>
  Claim C2. An attempt (\<^verbatim>\<open>tryLock\<close>) sends exactly one request, and \<^verbatim>\<open>Lock\<close> sends one such
  request for each attempt it makes and nothing else. On any stored item the condition of
  the request holds exactly when the record is absent, or \<^verbatim>\<open>LockerID\<close> is absent, or is 0,
  or is the session identifier, or, only when \<^verbatim>\<open>Expiry > 0\<close>, \<^verbatim>\<open>LockerID\<close> differs from the
  session identifier and \<^verbatim>\<open>LastWrite\<close> is below the clock reading minus \<^verbatim>\<open>Expiry\<close> (a
  subtraction of 64-bit integers, exact for a clock reading that is not negative). The
  update sets \<^verbatim>\<open>LockerID\<close> to the session identifier and \<^verbatim>\<open>LastWrite\<close> to the clock reading
  taken for it, on the record named by the Mutex in its table.
\<close>

theorem tryLock_conditional_update:
  "requests (snd (snd (tryLock flt now1 now2 m w))) = requests w @ [tryLock_input now1 now2 m] \<and>
   (\<forall>started ticks r m' w'.
      lockLoop started ticks m w = Some (r, m', w') \<and> (\<forall>t \<in> set ticks. others t = []) \<longrightarrow>
      (\<exists>k. 0 < k \<and> k \<le> length ticks \<and>
         requests w' = requests w @
           map (\<lambda>t. tryLock_input (now_lastwrite t) (now_expiry t) m) (take k ticks))) \<and>
   evalCondition (map_of (ExpressionAttributeNames (tryLock_input now1 now2 m)))
     (map_of (ExpressionAttributeValues (tryLock_input now1 now2 m))) it
     (ConditionExpression (tryLock_input now1 now2 m)) = Some (acquire_condition m now2 it) \<and>
   acquire_condition m now2 it =
     (it ''Name'' = None \<or> it ''LockerID'' = None \<or> it ''LockerID'' = Some (AttrN 0) \<or>
      it ''LockerID'' = Some (AttrN (sint (id_m m))) \<or>
      (0 < sint (Expiry m) \<and> it ''LockerID'' \<noteq> Some (AttrN (sint (id_m m))) \<and>
       (\<exists>lastWrite. it ''LastWrite'' = Some (AttrN lastWrite) \<and>
          lastWrite < sint (now2 - Expiry m)))) \<and>
   (0 < sint (Expiry m) \<and> 0 \<le> sint now2 \<longrightarrow>
      sint (now2 - Expiry m) = sint now2 - sint (Expiry m)) \<and>
   applySet (map_of (ExpressionAttributeNames (tryLock_input now1 now2 m)))
     (map_of (ExpressionAttributeValues (tryLock_input now1 now2 m)))
     (UpdateExpression (tryLock_input now1 now2 m)) it
     = Some (it(''LastWrite'' \<mapsto> AttrN (sint now1), ''LockerID'' \<mapsto> AttrN (sint (id_m m)))) \<and>
   map_of (Key (tryLock_input now1 now2 m)) ''Name'' = Some (AttrS (Name m)) \<and>
   TableName (tryLock_input now1 now2 m) = DDBTableName m"
proof -
  have c1: "requests (snd (snd (tryLock flt now1 now2 m w))) = requests w @ [tryLock_input now1 now2 m]"
    by (rule tryLock_requests)
  have c2: "\<forall>started ticks r m' w'.
      lockLoop started ticks m w = Some (r, m', w') \<and> (\<forall>t \<in> set ticks. others t = []) \<longrightarrow>
      (\<exists>k. 0 < k \<and> k \<le> length ticks \<and>
         requests w' = requests w @
           map (\<lambda>t. tryLock_input (now_lastwrite t) (now_expiry t) m) (take k ticks))"
    using lockLoop_requests by blast
  have c3: "evalCondition (map_of (ExpressionAttributeNames (tryLock_input now1 now2 m)))
     (map_of (ExpressionAttributeValues (tryLock_input now1 now2 m))) it
     (ConditionExpression (tryLock_input now1 now2 m)) = Some (acquire_condition m now2 it)"
    by (rule tryLock_condition_eval)
  have c4: "acquire_condition m now2 it =
     (it ''Name'' = None \<or> it ''LockerID'' = None \<or> it ''LockerID'' = Some (AttrN 0) \<or>
      it ''LockerID'' = Some (AttrN (sint (id_m m))) \<or>
      (0 < sint (Expiry m) \<and> it ''LockerID'' \<noteq> Some (AttrN (sint (id_m m))) \<and>
       (\<exists>lastWrite. it ''LastWrite'' = Some (AttrN lastWrite) \<and>
          lastWrite < sint (now2 - Expiry m))))"
    by (auto simp: acquire_condition_def split: option.splits AttributeValue.splits)
  have c5: "0 < sint (Expiry m) \<and> 0 \<le> sint now2 \<longrightarrow>
      sint (now2 - Expiry m) = sint now2 - sint (Expiry m)"
    using sint_diff_no_wrap by blast
  have c6: "applySet (map_of (ExpressionAttributeNames (tryLock_input now1 now2 m)))
     (map_of (ExpressionAttributeValues (tryLock_input now1 now2 m)))
     (UpdateExpression (tryLock_input now1 now2 m)) it
     = Some (it(''LastWrite'' \<mapsto> AttrN (sint now1), ''LockerID'' \<mapsto> AttrN (sint (id_m m))))"
    by (rule tryLock_applySet)
  have c7: "map_of (Key (tryLock_input now1 now2 m)) ''Name'' = Some (AttrS (Name m))"
    and c8: "TableName (tryLock_input now1 now2 m) = DDBTableName m"
    by (simp_all add: tryLock_input_def Let_def)
  from c1 c2 c3 c4 c5 c6 c7 c8 show ?thesis by (intro conjI)
qed

text \<open>
  Session 9 with an expiry of 50 ns at time 200, the record held by session 7 since
  time 100: one request, the threshold is 150, the condition holds, and \<^verbatim>\<open>Lock\<close> returns
  after one attempt and one request.
\<close>

theorem tryLock_conditional_update_witness:
  "requests (snd (snd (tryLock None 200 200 ((session 9)\<lparr>Expiry := 50\<rparr>) held_world)))
     = [tryLock_input 200 200 ((session 9)\<lparr>Expiry := 50\<rparr>)] \<and>
   sint (200 - Expiry ((session 9)\<lparr>Expiry := 50\<rparr>)) = 150 \<and>
   acquire_condition ((session 9)\<lparr>Expiry := 50\<rparr>) 200
     (stored_item held_world ''Locks'' ''Lock'') \<and>
   (\<exists>w'. lockLoop 0 [quiet_tick 200] ((session 9)\<lparr>Expiry := 50\<rparr>) held_world
            = Some (Inr (), (session 9)\<lparr>Expiry := 50\<rparr>, w') \<and>
          (\<exists>k. 0 < k \<and> k \<le> length [quiet_tick 200] \<and>
             requests w' = requests held_world @
               map (\<lambda>t. tryLock_input (now_lastwrite t) (now_expiry t)
                          ((session 9)\<lparr>Expiry := 50\<rparr>)) (take k [quiet_tick 200])))"
proof -
  let ?m = "(session 9)\<lparr>Expiry := 50\<rparr>"
  let ?it = "stored_item held_world ''Locks'' ''Lock''"
  note inst = tryLock_conditional_update [of None 200 200 ?m held_world ?it]
  have q: "\<forall>t \<in> set [quiet_tick 200]. others t = []" by (simp add: quiet_tick_def)
  have e: "0 < sint (Expiry ?m) \<and> 0 \<le> sint (200 :: int64)" by (simp add: session_def)
  have a: "requests (snd (snd (tryLock None 200 200 ?m held_world))) = [tryLock_input 200 200 ?m]"
    using inst by (simp add: held_world_def)
  have "sint (200 - Expiry ?m) = sint (200 :: int64) - sint (Expiry ?m)"
    using inst e by blast
  then have b: "sint (200 - Expiry ?m) = 150" by (simp add: session_def)
  have c: "acquire_condition ?m 200 ?it"
    using inst by (simp add: held_world_def stored_item_def session_def)
  have d: "\<exists>k. 0 < k \<and> k \<le> length [quiet_tick 200] \<and>
      requests (snd (snd (tryLock None 200 200 ?m held_world))) = requests held_world @
        map (\<lambda>t. tryLock_input (now_lastwrite t) (now_expiry t) ?m) (take k [quiet_tick 200])"
    using inst lockLoop_seizes_expired q by blast
  from a b c d lockLoop_seizes_expired show ?thesis by blast
qed

subsection \<open>C3: the timeout test of \<^verbatim>\<open>Lock\<close>\<close>

text \<open>
  Claim C3, as the code has it. With \<^verbatim>\<open>Timeout > 0\<close> and a clock that is not negative, an
  attempt that returns \<^verbatim>\<open>ConditionalCheckFailedException\<close> makes \<^verbatim>\<open>Lock\<close> fail with
  \<open>FailedToAcquire\<close> exactly when the time since the start is strictly greater than the
  timeout (the test is \<^verbatim>\<open>started < now - timeout\<close>); otherwise \<^verbatim>\<open>Lock\<close> sleeps one backoff
  interval and goes on with the next attempt, the Mutex unchanged. Whatever the turns,
  \<^verbatim>\<open>Lock\<close> never panics with the condition failure itself.
\<close>

theorem Lock_timeout:
  assumes "fst (tryLock (fault t) (now_lastwrite t) (now_expiry t) m (run_others (others t) w))
             = Inr (Some (AwsErr ErrCodeConditionalCheckFailedException))"
    and "0 < sint (timeout m)" and "0 \<le> sint (now_timeout t)"
  shows "lockLoop started (t # ts) m w =
     (let w1 = snd (snd (tryLock (fault t) (now_lastwrite t) (now_expiry t) m
                      (run_others (others t) w)))
      in if sint (timeout m) < sint (now_timeout t) - sint started
         then Some (Inl FailedToAcquire, m, w1)
         else lockLoop started ts m (w1\<lparr>sleeps := sleeps w1 @ [backoff t]\<rparr>)) \<and>
     (\<forall>ticks m' w'. lockLoop started ticks m w \<noteq>
        Some (Inl (StoreError (AwsErr ErrCodeConditionalCheckFailedException)), m', w'))"
proof -
  have "sint (now_timeout t - timeout m) = sint (now_timeout t) - sint (timeout m)"
    using assms(2,3) by (rule sint_diff_no_wrap)
  then have "(sint started < sint (now_timeout t - timeout m))
      = (sint (timeout m) < sint (now_timeout t) - sint started)"
    by auto
  then show ?thesis
    using lockLoop_contention [OF assms(1), of started ts] lockLoop_never_surfaces
    by simp
qed

text \<open>
  Session 9 against the record held by session 7, started at 0 with the timeout of 5 s:
  at 6 s the contended attempt fails \<^verbatim>\<open>Lock\<close>.
\<close>

theorem Lock_timeout_witness:
  "lockLoop 0 [quiet_tick (6 * Second)] (session 9) held_world
     = Some (Inl FailedToAcquire, session 9,
             snd (snd (tryLock None (6 * Second) (6 * Second) (session 9) held_world)))"
proof -
  have h: "fst (tryLock (fault (quiet_tick (6 * Second))) (now_lastwrite (quiet_tick (6 * Second)))
        (now_expiry (quiet_tick (6 * Second))) (session 9)
        (run_others (others (quiet_tick (6 * Second))) held_world))
      = Inr (Some (AwsErr ErrCodeConditionalCheckFailedException))"
    by (simp add: quiet_tick_def run_others_def held_blocks_9)
  have t: "0 < sint (timeout (session 9))" by (simp add: session_def Second_def)
  have n: "0 \<le> sint (now_timeout (quiet_tick (6 * Second)))"
    by (simp add: quiet_tick_def Second_def)
  from Lock_timeout [OF h t n, of 0 "[]"] show ?thesis
    by (simp add: quiet_tick_def run_others_def session_def Second_def Let_def)
qed

text \<open>
  At exactly 5 s the elapsed time equals the timeout, yet \<^verbatim>\<open>Lock\<close> does not fail: it
  sleeps, retries, and returns normally once session 7 has released the lock.
\<close>

theorem Lock_timeout_counterexample:
  "0 < sint (timeout (session 9)) \<and>
   sint (timeout (session 9)) \<le> sint (now_timeout (quiet_tick (5 * Second))) - sint (0 :: int64) \<and>
   fst (tryLock None (5 * Second) (5 * Second) (session 9) held_world)
     = Inr (Some (AwsErr ErrCodeConditionalCheckFailedException)) \<and>
   map_option fst (lockLoop 0 [quiet_tick (5 * Second), release_tick (5 * Second + 1)]
       (session 9) held_world) = Some (Inr ())"
proof -
  have a: "0 < sint (timeout (session 9))"
    "sint (timeout (session 9)) \<le> sint (now_timeout (quiet_tick (5 * Second))) - sint (0 :: int64)"
    by (simp_all add: session_def quiet_tick_def Second_def)
  have b: "map_option fst (lockLoop 0 [release_tick (5 * Second + 1)] (session 9)
      (held_world\<lparr>requests := [tryLock_input (5 * Second) (5 * Second) (session 9)],
                   sleeps := [backoff (quiet_tick (5 * Second))]\<rparr>)) = Some (Inr ())"
    by (simp add: release_tick_def run_others_def tryUnlock_UpdateItem tryLock_def
        tryLock_UpdateItem Let_def held_world_def session_def release_condition_def
        acquire_condition_def stored_item_def)
  from a held_blocks_9 contended_first_attempt [of "[release_tick (5 * Second + 1)]"] b
  show ?thesis by simp
qed

subsection \<open>C4: \<^verbatim>\<open>Timeout = 0\<close>\<close>

text \<open>
  Claim C4 says that a timeout of zero disables the bound, as the comment of
  \<^verbatim>\<open>WithTimeout\<close> does ("Set it to 0 for no timeout"). The loop has no test for zero: with
  \<^verbatim>\<open>WithTimeout(0)\<close>, a contended attempt whose clock reading is one nanosecond after the
  start already fails \<^verbatim>\<open>Lock\<close> with \<open>FailedToAcquire\<close>.
\<close>

theorem Lock_zero_timeout_fails:
  "GetTimeout (WithTimeout 0 Mutex0) = 0 \<and>
   map_option fst (Lock (ready_env [9]) 1000 [quiet_tick 1001] (WithTimeout 0 Mutex0) held_world)
     = Some (Inl FailedToAcquire)"
proof -
  have i: "initialization (ready_env [9]) (WithTimeout 0 Mutex0)
      = Some (Inr None, (session 9)\<lparr>timeout := 0, timeoutSet := True\<rparr>)"
    by (simp add: initialization_def ready_env_def Mutex0_def session_def Let_def
        TableStatusActive_def WithTimeout_def)
  have l: "map_option fst (lockLoop 1000 [quiet_tick 1001]
      ((session 9)\<lparr>timeout := 0, timeoutSet := True\<rparr>) held_world) = Some (Inl FailedToAcquire)"
    by (simp add: quiet_tick_def run_others_def tryLock_def tryLock_UpdateItem Let_def
        held_world_def session_def acquire_condition_def stored_item_def)
  have g: "GetTimeout (WithTimeout 0 Mutex0) = 0" by (simp add: GetTimeout_def WithTimeout_def)
  have L: "Lock (ready_env [9]) 1000 [quiet_tick 1001] (WithTimeout 0 Mutex0) held_world
      = lockLoop 1000 [quiet_tick 1001] ((session 9)\<lparr>timeout := 0, timeoutSet := True\<rparr>) held_world"
    by (simp only: Lock_def i option.case prod.case sum.case)
  show ?thesis by (simp only: L l g)
qed

subsection \<open>C5: the conditional update of \<^verbatim>\<open>Unlock\<close>\<close>

text \<open>
  Claim C5, as the code has it. An \<^verbatim>\<open>Unlock\<close> whose initialization completes returns or
  panics after exactly one request. On any stored item the condition of the request holds exactly when
  the record is absent or \<^verbatim>\<open>LockerID\<close> is the session identifier; the update sets
  \<^verbatim>\<open>LastWrite\<close> to the clock reading, \<^verbatim>\<open>LockerID\<close> to 0 and \<^verbatim>\<open>Value\<close> to the cached value,
  on the record named by the Mutex in its table.
\<close>

theorem Unlock_conditional_update:
  assumes "initialization env m = Some (Inr e, m1)"
  shows "\<exists>r w'. Unlock env flt now m w = Some (r, m1, w') \<and>
           requests w' = requests w @ [tryUnlock_input now m1] \<and>
           evalCondition (map_of (ExpressionAttributeNames (tryUnlock_input now m1)))
             (map_of (ExpressionAttributeValues (tryUnlock_input now m1))) it
             (ConditionExpression (tryUnlock_input now m1))
             = Some (it ''Name'' = None \<or> it ''LockerID'' = Some (AttrN (sint (id_m m1)))) \<and>
           applySet (map_of (ExpressionAttributeNames (tryUnlock_input now m1)))
             (map_of (ExpressionAttributeValues (tryUnlock_input now m1)))
             (UpdateExpression (tryUnlock_input now m1)) it
             = Some (it(''LastWrite'' \<mapsto> AttrN (sint now), ''LockerID'' \<mapsto> AttrN 0,
                        ''Value'' \<mapsto> AttrS (Value m1))) \<and>
           map_of (Key (tryUnlock_input now m1)) ''Name'' = Some (AttrS (Name m1)) \<and>
           TableName (tryUnlock_input now m1) = DDBTableName m1"
proof -
  have "map_of (Key (tryUnlock_input now m1)) ''Name'' = Some (AttrS (Name m1))"
    "TableName (tryUnlock_input now m1) = DDBTableName m1"
    by (simp_all add: tryUnlock_input_def)
  then show ?thesis
    using Unlock_after_initialization [OF assms, of flt now w]
      tryUnlock_requests [of flt now m1 w]
      tryUnlock_condition_eval [of now m1 it] tryUnlock_applySet [of now m1 it]
    by (simp add: release_condition_def)
qed

text \<open>A new \<^verbatim>\<open>Mutex{}\<close> that becomes session 7 and unlocks at time 300.\<close>

theorem Unlock_conditional_update_witness:
  "\<exists>r w'. Unlock (ready_env [0, 7]) None 300 Mutex0 held_world = Some (r, session 7, w') \<and>
     requests w' = [tryUnlock_input 300 (session 7)]"
  using Unlock_conditional_update [OF init_Mutex0, of None 300 held_world Map.empty]
  by (auto simp: held_world_def)

text \<open>
  Not every call gets that far. A new \<^verbatim>\<open>Mutex{}\<close> whose table is being deleted panics in
  its initialization, and \<^verbatim>\<open>Unlock\<close> has sent no request; while the table is still
  being created, \<^verbatim>\<open>Unlock\<close> has not returned.
\<close>

theorem Unlock_conditional_update_counterexample:
  "map_option fst (Unlock deleting_env None 300 Mutex0 fresh_world)
     = Some (Inl (CouldNotAccessTable ''error activating table. Table status: DELETING'')) \<and>
   map_option (\<lambda>r. requests (snd (snd r))) (Unlock deleting_env None 300 Mutex0 fresh_world)
     = Some [] \<and>
   Unlock creating_env None 300 Mutex0 fresh_world = None"
  by (simp add: Unlock_def initialization_def deleting_env_def creating_env_def Mutex0_def
      Let_def TableStatusActive_def TableStatusCreating_def fresh_world_def)

subsection \<open>C6: \<^verbatim>\<open>Unlock\<close> by a session that is not the holder\<close>




subsection \<open>C7: when \<^verbatim>\<open>GetValueInt64\<close> fails\<close>

text \<open>
  Claim C7, as the code has it. \<^verbatim>\<open>GetValueInt64\<close> panics with \<open>InvalidValue\<close> exactly when
  the cached value is not empty and is not a base-10 signed 64-bit integer literal; for
  such a literal it returns the integer it denotes; it panics in no other way.
\<close>

theorem GetValueInt64_invalid:
  "((\<exists>e. GetValueInt64 m = Inl (InvalidValue e)) \<longleftrightarrow>
      (Value m \<noteq> [] \<and> \<not> valid_int64_literal (Value m))) \<and>
   (valid_int64_literal (Value m) \<longrightarrow>
      GetValueInt64 m = Inr (word_of_int (literal_value (Value m)))) \<and>
   (\<forall>p. GetValueInt64 m = Inl p \<longrightarrow> (\<exists>e. p = InvalidValue e))"
proof (cases "Value m = []")
  case True
  then show ?thesis
    by (simp add: GetValueInt64_def valid_int64_literal_def digits_part_def)
next
  case ne: False
  show ?thesis
  proof (cases "valid_int64_literal (Value m)")
    case True
    with ne ParseInt_valid [OF True] show ?thesis by (simp add: GetValueInt64_def)
  next
    case False
    from ParseInt_invalid [OF False] obtain e where "ParseInt (Value m) = Inl e" ..
    with ne False show ?thesis by (simp add: GetValueInt64_def)
  qed
qed

theorem GetValueInt64_invalid_witness:
  "GetValueInt64 (SetValueString ''not-a-number'' Mutex0) = Inl (InvalidValue ErrSyntax) \<and>
   \<not> valid_int64_literal ''not-a-number'' \<and>
   valid_int64_literal ''-17'' \<and>
   GetValueInt64 (SetValueString ''-17'' Mutex0) = Inr (- 17)"
proof -
  have v: "Value (SetValueString ''not-a-number'' Mutex0) = ''not-a-number''"
    "Value (SetValueString ''-17'' Mutex0) = ''-17''"
    by (simp_all add: SetValueString_def)
  have a: "GetValueInt64 (SetValueString ''not-a-number'' Mutex0) = Inl (InvalidValue ErrSyntax)"
    by (simp add: GetValueInt64_def v ParseInt_def ParseUint_def is_digit_def)
  have b: "valid_int64_literal ''-17''" "literal_value ''-17'' = - 17"
    by (simp_all add: valid_int64_literal_def literal_value_def digits_part_def is_digit_def
        digit_nat_def)
  from GetValueInt64_invalid [of "SetValueString ''not-a-number'' Mutex0"]
    GetValueInt64_invalid [of "SetValueString ''-17'' Mutex0"] a b
  show ?thesis by (simp add: v)
qed

text \<open>The empty cached value is not a literal, and \<^verbatim>\<open>GetValueInt64\<close> returns 0.\<close>

theorem GetValueInt64_invalid_counterexample:
  "\<not> valid_int64_literal (Value Mutex0) \<and> GetValueInt64 Mutex0 = Inr 0"
  by (simp add: valid_int64_literal_def digits_part_def Mutex0_def GetValueInt64_def)

subsection \<open>C8: round trips of the value accessors\<close>

text \<open>
  Claim C8. For every 64-bit integer \<open>v\<close>, \<^verbatim>\<open>SetValueInt64(v)\<close> then \<^verbatim>\<open>GetValueInt64()\<close>
  returns \<open>v\<close>; for every string \<open>s\<close>, \<^verbatim>\<open>SetValueString(s)\<close> then \<^verbatim>\<open>GetValueString()\<close>
  returns \<open>s\<close>.
\<close>

theorem value_roundtrip:
  "GetValueInt64 (SetValueInt64 v m) = Inr v \<and> GetValueString (SetValueString s m) = s"
proof -
  have "ParseInt (FormatInt v) = Inr v"
    using ParseInt_valid [of "FormatInt v"] FormatInt_valid [of v] by simp
  then show ?thesis
    by (simp add: GetValueInt64_def SetValueInt64_def GetValueString_def
        SetValueString_def FormatInt_nonempty)
qed

theorem value_roundtrip_witness:
  "GetValueInt64 (SetValueInt64 (- 42) Mutex0) = Inr (- 42) \<and>
   Value (SetValueInt64 (- 42) Mutex0) = ''-42'' \<and>
   GetValueString (SetValueString ''Hello World!'' Mutex0) = ''Hello World!''"
proof -
  have "Value (SetValueInt64 (- 42) Mutex0) = ''-42''"
    by (simp add: SetValueInt64_def Mutex0_def) code_simp
  then show ?thesis
    using value_roundtrip [of "- 42" Mutex0 "''Hello World!''"] by simp
qed

subsection \<open>C9: the session identifier\<close>

text \<open>
  Claim C9. When the first initialization of a client completes, its session identifier
  is not zero; and after any sequence of later operations that return or panic
  (initialization again, \<^verbatim>\<open>Lock\<close>, \<^verbatim>\<open>Unlock\<close>, the value accessors, the timeout accessors)
  it is the same identifier, hence not zero.
\<close>

theorem SessionID_invariant:
  assumes "\<not> initialized m" and "initialization env m = Some (Inr e, m1)"
  shows "id_m m1 \<noteq> 0 \<and>
         (\<forall>xs w m' w'. performAll xs (m1, w) = Some (m', w') \<longrightarrow>
            id_m m' = id_m m1 \<and> id_m m' \<noteq> 0)"
  using initialization_first [OF assms(2,1)] performAll_id by metis

theorem SessionID_invariant_witness:
  "\<not> initialized Mutex0 \<and> id_m (session 7) = 7 \<and>
   (\<exists>m' w'. performAll [DoSetValueInt64 5, DoUnlock (ready_env []) None 300, DoWithTimeout 3,
                         DoInitialization (ready_env [11])]
             (session 7, fresh_world) = Some (m', w') \<and> id_m m' = 7)"
proof -
  have n: "\<not> initialized Mutex0" by (simp add: Mutex0_def)
  have i: "id_m (session 7) = 7" by (simp add: session_def)
  let ?m5 = "SetValueInt64 5 (session 7)"
  have "initialized ?m5" by (simp add: SetValueInt64_def session_def)
  from Unlock_after_initialization [OF initialized_initialization [OF this], of "ready_env []" None 300 fresh_world]
  obtain r w1 where u: "Unlock (ready_env []) None 300 ?m5 fresh_world = Some (r, ?m5, w1)"
    by blast
  have "initialized (WithTimeout 3 ?m5)"
    by (simp add: WithTimeout_def SetValueInt64_def session_def)
  then have "initialization (ready_env [11]) (WithTimeout 3 ?m5) = Some (Inr None, WithTimeout 3 ?m5)"
    by (rule initialized_initialization)
  with u have p: "performAll [DoSetValueInt64 5, DoUnlock (ready_env []) None 300,
      DoWithTimeout 3, DoInitialization (ready_env [11])] (session 7, fresh_world)
      = Some (WithTimeout 3 ?m5, w1)"
    by simp
  from SessionID_invariant [OF n init_Mutex0]
  have "\<forall>xs w m' w'. performAll xs (session 7, w) = Some (m', w') \<longrightarrow>
      id_m m' = id_m (session 7) \<and> id_m m' \<noteq> 0"
    by (rule conjunct2)
  with p have "id_m (WithTimeout 3 ?m5) = id_m (session 7)" by blast
  with n i p show ?thesis by metis
qed

subsection \<open>C10: the empty cached value\<close>

text \<open>
  Claim C10. If the cached value is the empty string, \<^verbatim>\<open>GetValueInt64\<close> returns 0; and
  whenever it panics, the cached value is a non-empty string that \<^verbatim>\<open>ParseInt\<close> rejects.
\<close>

theorem GetValueInt64_empty:
  "(Value m = [] \<longrightarrow> GetValueInt64 m = Inr 0) \<and>
   (\<forall>p. GetValueInt64 m = Inl p \<longrightarrow>
      Value m \<noteq> [] \<and> (\<exists>e. ParseInt (Value m) = Inl e \<and> p = InvalidValue e))"
  by (auto simp: GetValueInt64_def split: sum.splits)

theorem GetValueInt64_empty_witness:
  "Value Mutex0 = [] \<and> GetValueInt64 Mutex0 = Inr 0 \<and>
   GetValueInt64 (SetValueString ''12a'' Mutex0) = Inl (InvalidValue ErrSyntax) \<and>
   ParseInt ''12a'' = Inl ErrSyntax"
proof -
  have e: "Value Mutex0 = []" by (simp add: Mutex0_def)
  have p: "ParseInt ''12a'' = Inl ErrSyntax"
    by (simp add: ParseInt_def ParseUint_def is_digit_def digit_nat_def maxUint64_def)
  then have g: "GetValueInt64 (SetValueString ''12a'' Mutex0) = Inl (InvalidValue ErrSyntax)"
    by (simp add: GetValueInt64_def SetValueString_def)
  from GetValueInt64_empty [of Mutex0] GetValueInt64_empty [of "SetValueString ''12a'' Mutex0"] e p g
  show ?thesis by simp
qed

end
